theory Spec2Isabelle
  imports Main "HOL-Library.AList"
begin

section \<open>Declaration-file resolution (\<^verbatim>\<open>plugins/typescript/modules.ts\<close>)\<close>

text \<open>
  A shallow embedding of \<^verbatim>\<open>getModule\<close>, \<^verbatim>\<open>isDTSModule\<close>, \<^verbatim>\<open>resolveDep\<close>,
  \<^verbatim>\<open>resolveDeps\<close>, \<^verbatim>\<open>foreachDeps\<close> and \<^verbatim>\<open>resolveModules\<close>.

  \<^item> The module-level \<^verbatim>\<open>moduleCache\<close> and \<^verbatim>\<open>cachedMap\<close> are fields of an explicit state that
    every operation takes and returns.
  \<^item> A thrown exception is a value \<open>Inl (Error msg)\<close>. Every throw site of the file
    (\<^verbatim>\<open>fj\<close>, \<^verbatim>\<open>NPM.getFileContent\<close>, a rejected \<^verbatim>\<open>fetch\<close>, \<^verbatim>\<open>JSON.parse\<close>, a property
    read on \<^verbatim>\<open>undefined\<close>) raises an instance of \<^verbatim>\<open>Error\<close>, so the branch
    \<^verbatim>\<open>else throw e\<close> of \<^verbatim>\<open>getModule\<close> is never taken and has no counterpart here.
  \<^item> The three operations of the \<^verbatim>\<open>NPM\<close> namespace, \<^verbatim>\<open>JSON.parse\<close> on a manifest and
    \<^verbatim>\<open>getDTName\<close> (imported from \<^verbatim>\<open>./utils\<close>) are parameters, collected in \<open>env\<close>.
    The answers of the registry do not change between two calls; each call that is
    made is appended to the field \<open>requests\<close> of the state.
  \<^item> \<^verbatim>\<open>Promise.all\<close> and \<^verbatim>\<open>Promise.allSettled\<close> launch their operations in list order and
    none is cancelled. The embedding runs them one after another in that order: this is
    the schedule in which every launched operation completes before the next one
    reaches its first \<^verbatim>\<open>await\<close>. Other interleavings are not covered.
  \<^item> A JavaScript object with string keys is an association list in property
    enumeration order; a \<^verbatim>\<open>Map\<close> is an association list in insertion order.
  \<^item> The \<^verbatim>\<open>dependencies\<close> object of a parsed manifest is the one object of the file
    that is mutated in place while shared (\<^verbatim>\<open>Object.assign\<close> in \<^verbatim>\<open>resolveDep\<close>), so it
    lives in an explicit store and a manifest holds its address.
\<close>

subsection \<open>Strings and objects of JavaScript\<close>

type_synonym 'v obj = "(string \<times> 'v) list"

text \<open>\<^verbatim>\<open>String.prototype.endsWith\<close>.\<close>

definition endsWith :: "string \<Rightarrow> string \<Rightarrow> bool" where
  "endsWith s suf = (length suf \<le> length s \<and> drop (length s - length suf) s = suf)"

text \<open>\<^verbatim>\<open>Array.prototype.join(',')\<close> on an array of strings.\<close>

fun join :: "string list \<Rightarrow> string" where
  "join [] = []"
| "join [x] = x"
| "join (x # y # ys) = x @ '','' @ join (y # ys)"

text \<open>
  Property order: the keys that are array indices (canonical decimal numerals below
  \<open>2^32 - 1\<close>) come first, in ascending numeric order, then the other string keys in
  the order they were created. Assigning to an existing key keeps its place.
\<close>

definition digit_val :: "char \<Rightarrow> nat option" where
  "digit_val c = (if c \<in> set ''0123456789'' then Some (of_char c - 48) else None)"

fun decimal :: "nat \<Rightarrow> string \<Rightarrow> nat option" where
  "decimal n [] = Some n"
| "decimal n (c # cs) =
     (case digit_val c of None \<Rightarrow> None | Some d \<Rightarrow> decimal (10 * n + d) cs)"

definition array_index :: "string \<Rightarrow> nat option" where
  "array_index k =
     (case k of
        [] \<Rightarrow> None
      | c # cs \<Rightarrow>
          if c = CHR ''0'' \<and> cs \<noteq> [] then None
          else (case decimal 0 k of
                  None \<Rightarrow> None
                | Some n \<Rightarrow> if n < 4294967295 then Some n else None))"

fun insert_index :: "nat \<Rightarrow> string \<Rightarrow> 'v \<Rightarrow> 'v obj \<Rightarrow> 'v obj" where
  "insert_index n k v [] = [(k, v)]"
| "insert_index n k v ((k', v') # rest) =
     (case array_index k' of
        None \<Rightarrow> (k, v) # (k', v') # rest
      | Some n' \<Rightarrow>
          if n' < n then (k', v') # insert_index n k v rest
          else (k, v) # (k', v') # rest)"

text \<open>The assignment \<^verbatim>\<open>obj[k] = v\<close>.\<close>

definition obj_set :: "string \<Rightarrow> 'v \<Rightarrow> 'v obj \<Rightarrow> 'v obj" where
  "obj_set k v ob =
     (case array_index k of
        None \<Rightarrow> AList.update k v ob
      | Some n \<Rightarrow>
          if map_of ob k = None then insert_index n k v ob
          else AList.update k v ob)"

text \<open>\<^verbatim>\<open>Object.assign(target, source)\<close> for a source object, and \<^verbatim>\<open>Object.fromEntries\<close>.\<close>

definition Object_assign :: "'v obj \<Rightarrow> 'v obj \<Rightarrow> 'v obj" where
  "Object_assign target source = foldl (\<lambda>acc (k, v). obj_set k v acc) target source"

definition Object_fromEntries :: "(string \<times> 'v) list \<Rightarrow> 'v obj" where
  "Object_fromEntries es = Object_assign [] es"

text \<open>The decimal numeral of an array index, as \<^verbatim>\<open>ToString\<close> writes it.\<close>

definition digit_char :: "nat \<Rightarrow> char" where
  "digit_char d = ''0123456789'' ! d"

function string_of_nat :: "nat \<Rightarrow> string" where
  "string_of_nat n =
     (if n < 10 then [digit_char n] else string_of_nat (n div 10) @ [digit_char (n mod 10)])"
  by pat_completeness auto
termination
  by (relation "measure id") auto

declare string_of_nat.simps [simp del]

text \<open>
  \<^verbatim>\<open>Object.assign(target, array)\<close>: the own enumerable properties of an array are its
  indices, so element \<open>i\<close> is assigned to the key \<open>String(i)\<close>.
\<close>

definition Object_assign_array :: "'v obj \<Rightarrow> 'v list \<Rightarrow> 'v obj" where
  "Object_assign_array target xs =
     Object_assign target (map (\<lambda>(i, x). (string_of_nat i, x)) (enumerate 0 xs))"

subsection \<open>Data model\<close>

text \<open>The conditions object of one entry of \<^verbatim>\<open>exports\<close>; every field is optional.\<close>

record export_conditions =
  cond_import :: "string option"
  cond_require :: "string option"
  cond_browser :: "string option"
  cond_node :: "string option"
  cond_default :: "string option"
  cond_types :: "string option"
  cond_typings :: "string option"

datatype export_value = ExportString string | ExportConditions export_conditions

text \<open>
  \<^verbatim>\<open>ModuleMeta\<close>. The parameter \<open>'d\<close> is what stands for the \<^verbatim>\<open>dependencies\<close> object:
  the object itself in the value \<^verbatim>\<open>JSON.parse\<close> returns, its address once the manifest
  is stored.
\<close>

record 'd ModuleMeta =
  main :: "string option"
  module :: "string option"
  browser :: "string option"
  typings :: "string option"
  types :: "string option"
  exports :: "export_value obj option"
  dependencies :: "'d option"

type_synonym addr = nat

text \<open>\<^verbatim>\<open>ModuleCacheItem\<close>: the three variants tagged by \<^verbatim>\<open>moduleLoadingStateSymbol\<close>.\<close>

datatype ModuleCacheItem =
    Loading
  | Loaded "addr ModuleMeta" "string obj"
  | LoadError string

datatype exn = Error (message: string)

datatype request =
    CalcVersion string string
  | GetFileTree string string
  | GetFileContent string string string

record env =
  NPM_calcVersion :: "string \<Rightarrow> string \<Rightarrow> exn + string option"
  NPM_getFileTree :: "string \<Rightarrow> string \<Rightarrow> exn + string list"
  NPM_getFileContent :: "string \<Rightarrow> string \<Rightarrow> string \<Rightarrow> exn + string"
  JSON_parse :: "string \<Rightarrow> exn + (string obj) ModuleMeta"
  getDTName :: "string \<Rightarrow> string"

record state =
  moduleCache :: "(string \<times> ModuleCacheItem obj) list"
  cachedMap :: "(string \<times> bool) list"
  store :: "string obj list"
  requests :: "request list"

definition empty_meta :: "'d ModuleMeta" where
  "empty_meta =
     \<lparr>main = None, module = None, browser = None, typings = None, types = None,
      exports = None, dependencies = None\<rparr>"

subsection \<open>\<^verbatim>\<open>isDTSModule\<close>\<close>

definition dts :: "string option \<Rightarrow> bool" where
  "dts p = (case p of None \<Rightarrow> False | Some s \<Rightarrow> endsWith s ''.d.ts'')"

definition isDTSModule :: "'d ModuleMeta \<Rightarrow> bool" where
  "isDTSModule meta =
     (dts (typings meta) \<or> dts (types meta) \<or>
      list_ex (\<lambda>(key, val).
          case val of
            ExportString s \<Rightarrow> endsWith s ''.d.ts''
          | ExportConditions c \<Rightarrow> dts (cond_types c) \<or> dts (cond_typings c))
        (case exports meta of None \<Rightarrow> [] | Some e \<Rightarrow> e))"

text \<open>
  The classification in the words of the specification: one of the \<^verbatim>\<open>typings\<close> field,
  the \<^verbatim>\<open>types\<close> field, a string export-condition value, or the \<^verbatim>\<open>types\<close>/\<^verbatim>\<open>typings\<close>
  sub-field of an export-condition object names a declaration file.
\<close>

definition names_declaration_file :: "string \<Rightarrow> bool" where
  "names_declaration_file p = (\<exists>stem. p = stem @ ''.d.ts'')"

definition self_describing :: "'d ModuleMeta \<Rightarrow> bool" where
  "self_describing meta =
     ((\<exists>p. typings meta = Some p \<and> names_declaration_file p) \<or>
      (\<exists>p. types meta = Some p \<and> names_declaration_file p) \<or>
      (\<exists>e key p. exports meta = Some e \<and> (key, ExportString p) \<in> set e \<and>
          names_declaration_file p) \<or>
      (\<exists>e key c p. exports meta = Some e \<and> (key, ExportConditions c) \<in> set e \<and>
          (cond_types c = Some p \<or> cond_typings c = Some p) \<and> names_declaration_file p))"

subsection \<open>\<^verbatim>\<open>getModule\<close>\<close>

text \<open>\<^verbatim>\<open>moduleCache.get(module)![version] = item\<close>.\<close>

definition versions_of :: "state \<Rightarrow> string \<Rightarrow> ModuleCacheItem obj" where
  "versions_of s m = (case map_of (moduleCache s) m of None \<Rightarrow> [] | Some vs \<Rightarrow> vs)"

definition set_entry :: "string \<Rightarrow> string \<Rightarrow> ModuleCacheItem \<Rightarrow> state \<Rightarrow> state" where
  "set_entry m version item s =
     s\<lparr>moduleCache := AList.update m (obj_set version item (versions_of s m)) (moduleCache s)\<rparr>"

definition request :: "request \<Rightarrow> state \<Rightarrow> state" where
  "request r s = s\<lparr>requests := requests s @ [r]\<rparr>"

text \<open>Lines 47 to 49: the package gets an empty version table on its first request.\<close>

definition moduleCache_has :: "state \<Rightarrow> string \<Rightarrow> bool" where
  "moduleCache_has s m = (map_of (moduleCache s) m \<noteq> None)"

definition ensure_module :: "string \<Rightarrow> state \<Rightarrow> state" where
  "ensure_module m s =
     (if \<not> moduleCache_has s m
      then s\<lparr>moduleCache := AList.update m [] (moduleCache s)\<rparr> else s)"

text \<open>
  Lines 51 to 59. A \<^verbatim>\<open>null\<close> version in the answer is kept; every later use of it is a
  string coercion (template literal, property key, URL), which gives \<^verbatim>\<open>"null"\<close>.
  When the call throws, the error entry is stored under the query, \<^verbatim>\<open>version\<close> keeps
  the query, and control falls through to line 60.
\<close>

definition resolve_version :: "env \<Rightarrow> string \<Rightarrow> string \<Rightarrow> state \<Rightarrow> string \<times> state" where
  "resolve_version env m version s =
     (let s1 = request (CalcVersion m version) s in
      case NPM_calcVersion env m version of
        Inr r \<Rightarrow> ((case r of None \<Rightarrow> ''null'' | Some v \<Rightarrow> v), s1)
      | Inl e \<Rightarrow>
          (version,
           set_entry m version
             (LoadError (''Version '' @ version @ '' of module '' @ m @ '' does not exist''))
             s1))"

text \<open>Line 60; an absent \<^verbatim>\<open>ext\<close> prints as \<^verbatim>\<open>undefined\<close>.\<close>

definition uniqKey :: "string \<Rightarrow> string \<Rightarrow> string list option \<Rightarrow> string" where
  "uniqKey m version ext =
     m @ ''@'' @ version @ ''['' @ (case ext of None \<Rightarrow> ''undefined'' | Some es \<Rightarrow> join es) @ '']''"

text \<open>\<^verbatim>\<open>Promise.all\<close>: the list of values, or the first rejection.\<close>

fun Promise_all :: "(exn + 'a) list \<Rightarrow> exn + 'a list" where
  "Promise_all [] = Inr []"
| "Promise_all (Inl e # rs) = Inl e"
| "Promise_all (Inr x # rs) = (case Promise_all rs of Inl e \<Rightarrow> Inl e | Inr xs \<Rightarrow> Inr (x # xs))"

text \<open>The filter of lines 70 to 73.\<close>

definition wanted :: "string list option \<Rightarrow> string \<Rightarrow> bool" where
  "wanted ext name =
     (if name = ''/package.json'' then True
      else (case ext of None \<Rightarrow> True | Some es \<Rightarrow> list_ex (\<lambda>e. endsWith name e) es))"

text \<open>\<^verbatim>\<open>JSON.parse\<close> allocates the manifest; its \<^verbatim>\<open>dependencies\<close> object gets a fresh address.\<close>

definition alloc_meta :: "(string obj) ModuleMeta \<Rightarrow> state \<Rightarrow> addr ModuleMeta \<times> state" where
  "alloc_meta pkg s =
     (case dependencies pkg of
        None \<Rightarrow>
          (\<lparr>main = main pkg, module = module pkg, browser = browser pkg,
            typings = typings pkg, types = types pkg, exports = exports pkg,
            dependencies = None\<rparr>, s)
      | Some d \<Rightarrow>
          (\<lparr>main = main pkg, module = module pkg, browser = browser pkg,
            typings = typings pkg, types = types pkg, exports = exports pkg,
            dependencies = Some (length (store s))\<rparr>,
           s\<lparr>store := store s @ [d]\<rparr>))"

text \<open>
  Lines 65 to 95: the slot becomes \<^verbatim>\<open>loading\<close>, the file tree is listed, every wanted
  file is requested, the manifest is parsed (\<^verbatim>\<open>'{}'\<close> when the tree has no
  \<^verbatim>\<open>/package.json\<close>), and the slot becomes \<^verbatim>\<open>loaded\<close>, or \<^verbatim>\<open>error\<close> with the message of
  whatever was thrown.
\<close>

definition fetch_module :: "env \<Rightarrow> string \<Rightarrow> string \<Rightarrow> string list option \<Rightarrow> state \<Rightarrow> state" where
  "fetch_module env m version ext s =
     (let s1 = request (GetFileTree m version) (set_entry m version Loading s) in
      case NPM_getFileTree env m version of
        Inl e \<Rightarrow> set_entry m version (LoadError (message e)) s1
      | Inr tree_files \<Rightarrow>
          (let names = filter (wanted ext) tree_files;
               s2 = s1\<lparr>requests := requests s1 @ map (GetFileContent m version) names\<rparr>
           in case Promise_all
                  (map (\<lambda>name. map_sum id (Pair name) (NPM_getFileContent env m version name))
                     names) of
                Inl e \<Rightarrow> set_entry m version (LoadError (message e)) s2
              | Inr files \<Rightarrow>
                  (case (case find (\<lambda>(name, content). name = ''/package.json'') files of
                           None \<Rightarrow> Inr empty_meta
                         | Some (name, content) \<Rightarrow> JSON_parse env content) of
                     Inl e \<Rightarrow> set_entry m version (LoadError (message e)) s2
                   | Inr pkgJSON \<Rightarrow>
                       (let (meta, s3) = alloc_meta pkgJSON s2
                        in set_entry m version (Loaded meta (Object_fromEntries files)) s3))))"

text \<open>
  Lines 98 to 105. A slot that was never written reads as \<^verbatim>\<open>undefined\<close>, and the
  property read on it throws a \<^verbatim>\<open>TypeError\<close>.
\<close>

definition read_entry ::
  "string \<Rightarrow> string \<Rightarrow> state \<Rightarrow> exn + (addr ModuleMeta \<times> string obj)" where
  "read_entry m version s =
     (case map_of (versions_of s m) version of
        None \<Rightarrow> Inl (Error ''Cannot read properties of undefined'')
      | Some (Loaded meta files) \<Rightarrow> Inr (meta, files)
      | Some (LoadError msg) \<Rightarrow> Inl (Error msg)
      | Some Loading \<Rightarrow> Inl (Error (''Module '' @ m @ ''@'' @ version @ '' is not loaded yet'')))"

text \<open>
  \<^verbatim>\<open>getModule(module, version, { ext, forceReload })\<close>. The value returned is the
  \<^verbatim>\<open>loaded\<close> entry, given by its manifest and its files.
\<close>

text \<open>The number of fetch sequences in a list of requests: one per file-tree listing.\<close>

definition fetch_sequences :: "request list \<Rightarrow> nat" where
  "fetch_sequences rs =
     length (filter (\<lambda>r. case r of GetFileTree m v \<Rightarrow> True | _ \<Rightarrow> False) rs)"

text \<open>\<^verbatim>\<open>cachedMap.get(uniqKey) !== true\<close>.\<close>

definition uncached :: "state \<Rightarrow> string \<Rightarrow> bool" where
  "uncached s key = (map_of (cachedMap s) key \<noteq> Some True)"

definition getModule ::
  "env \<Rightarrow> string \<Rightarrow> string \<Rightarrow> string list option \<Rightarrow> bool \<Rightarrow> state \<Rightarrow>
     (exn + (addr ModuleMeta \<times> string obj)) \<times> state" where
  "getModule env m version0 ext forceReload s =
     (let (version, s1) = resolve_version env m version0 (ensure_module m s);
          key = uniqKey m version ext;
          s2 = (if uncached s1 key \<or> forceReload
                then (let s' = fetch_module env m version ext s1
                      in s'\<lparr>cachedMap := AList.update key True (cachedMap s')\<rparr>)
                else s1)
      in (read_entry m version s2, s2))"

subsection \<open>\<^verbatim>\<open>resolveDep\<close>\<close>

text \<open>
  A value of a resolved tree. The declared type of the tree maps a package name to a
  \<^verbatim>\<open>ModuleCacheItem\<close>; \<^verbatim>\<open>Object.assign(modules, resolvedDeps)\<close> also stores whole trees
  in it.
\<close>

datatype node = Item ModuleCacheItem | Tree "(string \<times> node) list"

text \<open>
  The object a manifest's \<^verbatim>\<open>dependencies\<close> refers to, \<^verbatim>\<open>{}\<close> when it has none. An
  address handed out by \<open>alloc_meta\<close> is always below the length of the store; the
  last branch only makes the function total.
\<close>

definition deps_of :: "state \<Rightarrow> addr ModuleMeta \<Rightarrow> string obj" where
  "deps_of s meta =
     (case dependencies meta of
        None \<Rightarrow> []
      | Some a \<Rightarrow> if a < length (store s) then store s ! a else [])"

text \<open>
  Line 152: \<^verbatim>\<open>Object.assign(meta.dependencies ?? {}, dtsMeta.dependencies ?? {})\<close>. The
  target is the manifest's own \<^verbatim>\<open>dependencies\<close> object when it has one, and the
  assignment writes into it.
\<close>

definition assign_deps :: "addr ModuleMeta \<Rightarrow> addr ModuleMeta \<Rightarrow> state \<Rightarrow> string obj \<times> state" where
  "assign_deps meta dtsMeta s =
     (let deps = Object_assign (deps_of s meta) (deps_of s dtsMeta)
      in (deps,
          (case dependencies meta of
             None \<Rightarrow> s
           | Some a \<Rightarrow> s\<lparr>store := (store s)[a := deps]\<rparr>)))"

text \<open>
  Lines 142 to 151: the fallback type package is requested when the manifest is not
  self-describing; a failure of that request is caught and logged.
\<close>

definition load_fallback ::
  "env \<Rightarrow> string \<Rightarrow> string \<Rightarrow> node obj \<Rightarrow> addr ModuleMeta \<Rightarrow> state \<Rightarrow>
     node obj \<times> addr ModuleMeta \<times> state" where
  "load_fallback env m version modules meta s =
     (if \<not> isDTSModule meta then
        (let dtsMName = ''@types/'' @ getDTName env m in
         case getModule env dtsMName version (Some [''.d.ts'']) False s of
           (Inr (meta', files'), s') \<Rightarrow>
             (obj_set dtsMName (Item (Loaded meta' files')) modules, meta', s')
         | (Inl e, s') \<Rightarrow> (modules, empty_meta, s'))
      else (modules, empty_meta, s))"

text \<open>
  \<^verbatim>\<open>resolveDep(module, version, depth)\<close>, together with the
  \<^verbatim>\<open>.map(([module, version]) => resolveDep(module, version, depth))\<close> over a list of
  entries that both \<^verbatim>\<open>resolveDep\<close> and \<^verbatim>\<open>resolveDeps\<close> use.
\<close>

function resolveDep ::
    "env \<Rightarrow> string \<Rightarrow> string \<Rightarrow> nat \<Rightarrow> state \<Rightarrow> (exn + node obj) \<times> state"
  and resolveDep_map ::
    "env \<Rightarrow> (string \<times> string) list \<Rightarrow> nat \<Rightarrow> state \<Rightarrow> (exn + node obj) list \<times> state"
where
  "resolveDep env m version depth s =
     (if depth > 2 then (Inr [], s)
      else
        (case getModule env m version (Some [''.d.ts'']) False s of
           (Inl e, s1) \<Rightarrow> (Inl e, s1)
         | (Inr (meta, files), s1) \<Rightarrow>
             (case load_fallback env m version [(m, Item (Loaded meta files))] meta s1 of
                (modules, dtsMeta, s2) \<Rightarrow>
                  (case assign_deps meta dtsMeta s2 of
                     (deps, s3) \<Rightarrow>
                       (case resolveDep_map env deps (depth + 1) s3 of
                          (results, s4) \<Rightarrow>
                            (case Promise_all results of
                               Inl e \<Rightarrow> (Inl e, s4)
                             | Inr resolvedDeps \<Rightarrow>
                                 (Inr (Object_assign_array modules (map Tree resolvedDeps)),
                                  s4)))))))"
| "resolveDep_map env [] depth s = ([], s)"
| "resolveDep_map env ((m, version) # rest) depth s =
     (case resolveDep env m version depth s of
        (r, s1) \<Rightarrow>
          (case resolveDep_map env rest depth s1 of
             (rs, s2) \<Rightarrow> (r # rs, s2)))"
  by pat_completeness auto
termination
  by (relation "measures
        [\<lambda>x. case x of
               Inl (env, m, version, depth, s) \<Rightarrow> 2 * (3 - depth)
             | Inr (env, deps, depth, s) \<Rightarrow> 2 * (3 - depth) + 1,
         \<lambda>x. case x of
               Inl (env, m, version, depth, s) \<Rightarrow> 0
             | Inr (env, deps, depth, s) \<Rightarrow> length deps]") auto

declare resolveDep.simps [simp del]

text \<open>
  Lines 152 to 159 on their own: what \<^verbatim>\<open>resolveDep\<close> does once \<^verbatim>\<open>modules\<close>, \<^verbatim>\<open>meta\<close> and
  \<^verbatim>\<open>dtsMeta\<close> are known.
\<close>

definition resolveDep_merge ::
  "env \<Rightarrow> node obj \<Rightarrow> addr ModuleMeta \<Rightarrow> addr ModuleMeta \<Rightarrow> nat \<Rightarrow> state \<Rightarrow>
     (exn + node obj) \<times> state" where
  "resolveDep_merge env modules meta dtsMeta depth s =
     (case assign_deps meta dtsMeta s of
        (deps, s3) \<Rightarrow>
          (case resolveDep_map env deps (depth + 1) s3 of
             (results, s4) \<Rightarrow>
               (case Promise_all results of
                  Inl e \<Rightarrow> (Inl e, s4)
                | Inr resolvedDeps \<Rightarrow>
                    (Inr (Object_assign_array modules (map Tree resolvedDeps)), s4))))"

subsection \<open>\<^verbatim>\<open>resolveDeps\<close>\<close>

text \<open>
  One slot of the batch result: the optional \<^verbatim>\<open>depLoadErrorSymbol\<close> property and the
  string-keyed properties, which are those of the resolved tree.
\<close>

record dep =
  depLoadError :: "string option"
  dep_modules :: "node obj"

definition settled :: "exn + node obj \<Rightarrow> dep" where
  "settled result =
     (case result of
        Inl reason \<Rightarrow> \<lparr>depLoadError = Some (message reason), dep_modules = []\<rparr>
      | Inr v \<Rightarrow> \<lparr>depLoadError = None, dep_modules = v\<rparr>)"

definition dep_key :: "string \<times> string \<Rightarrow> string" where
  "dep_key d = fst d @ ''@'' @ snd d"

definition resolveDeps :: "env \<Rightarrow> (string \<times> string) list \<Rightarrow> state \<Rightarrow> dep obj \<times> state" where
  "resolveDeps env deps s =
     (case resolveDep_map env deps 0 s of
        (results, s') \<Rightarrow>
          (foldl (\<lambda>acc (d, result). obj_set (dep_key d) (settled result) acc) []
             (zip deps results),
           s'))"

subsection \<open>\<^verbatim>\<open>foreachDeps\<close>\<close>

text \<open>A string is truthy when it is defined and not empty.\<close>

definition truthy :: "string option \<Rightarrow> bool" where
  "truthy x = (case x of None \<Rightarrow> False | Some m \<Rightarrow> m \<noteq> [])"

text \<open>
  \<^verbatim>\<open>foreachDeps(deps, cb)\<close>. The callback only updates an accumulator of the caller
  (\<^verbatim>\<open>extraLibs\<close> in \<^verbatim>\<open>resolveModules\<close>), so it is a function on that accumulator. An
  entry that is not a \<^verbatim>\<open>loaded\<close> cache item has no \<^verbatim>\<open>moduleLoadingStateSymbol\<close> equal
  to \<^verbatim>\<open>'loaded'\<close> and is passed over.
\<close>

definition foreachDeps ::
  "dep obj \<Rightarrow> (string \<Rightarrow> string \<Rightarrow> string \<Rightarrow> 'a \<Rightarrow> 'a) \<Rightarrow> 'a \<Rightarrow> 'a" where
  "foreachDeps deps cb acc =
     (let allModules =
            concat (map (\<lambda>(depName, d). dep_modules d)
              (filter (\<lambda>(depName, d). \<not> truthy (depLoadError d)) deps))
      in foldl (\<lambda>acc (moduleName, md).
             case md of
               Item (Loaded meta files) \<Rightarrow>
                 foldl (\<lambda>acc (filePath, content). cb moduleName filePath content acc) acc files
             | _ \<Rightarrow> acc)
           acc allModules)"

text \<open>The calls of \<^verbatim>\<open>opts.onDepLoadError\<close>, in order: the slot's key and its message.\<close>

definition depLoadErrors :: "dep obj \<Rightarrow> (string \<times> string) list" where
  "depLoadErrors deps =
     map (\<lambda>(depName, d). (depName, (case depLoadError d of None \<Rightarrow> [] | Some msg \<Rightarrow> msg)))
       (filter (\<lambda>(depName, d). truthy (depLoadError d)) deps)"

subsection \<open>\<^verbatim>\<open>resolveModules\<close>\<close>

text \<open>A reference, as far as \<^verbatim>\<open>resolveModules\<close> reads it.\<close>

record ref =
  ref_module :: string
  ref_version :: "string option"

text \<open>
  Modelled from the spec: the Type Host (the \<^verbatim>\<open>typescriptDefaults\<close> of the editor, an
  external library). It exposes a get/set pair for its list of virtual files, and set
  replaces the whole list. \<^verbatim>\<open>getExtraLibs\<close> returns an object keyed by path, so a path
  occurs once in it. The calls of \<^verbatim>\<open>setExtraLibs\<close> are recorded with their argument.
\<close>

record typeHost =
  extraLibs :: "string obj"
  setExtraLibs_calls :: "(string \<times> string) list list"

definition getExtraLibs :: "typeHost \<Rightarrow> string obj" where
  "getExtraLibs h = extraLibs h"

definition setExtraLibs :: "(string \<times> string) list \<Rightarrow> typeHost \<Rightarrow> typeHost" where
  "setExtraLibs libs h =
     \<lparr>extraLibs = Object_fromEntries libs, setExtraLibs_calls = setExtraLibs_calls h @ [libs]\<rparr>"

text \<open>\<^verbatim>\<open>findIndex\<close> on the path followed by \<^verbatim>\<open>splice(index, 1)\<close> when it is found.\<close>

fun remove_lib :: "string \<Rightarrow> (string \<times> string) list \<Rightarrow> (string \<times> string) list" where
  "remove_lib filePath [] = []"
| "remove_lib filePath ((extPath, content) # libs) =
     (if extPath = filePath then libs else (extPath, content) # remove_lib filePath libs)"

definition dep_of_ref :: "ref \<Rightarrow> string \<times> string" where
  "dep_of_ref r = (ref_module r, (case ref_version r of None \<Rightarrow> ''latest'' | Some v \<Rightarrow> v))"

text \<open>
  \<^verbatim>\<open>resolveModules(monaco, oldRefs, newRefs, opts)\<close>. The result is the host, the state
  and the calls of \<^verbatim>\<open>opts.onDepLoadError\<close>.
\<close>

definition resolveModules ::
  "env \<Rightarrow> typeHost \<Rightarrow> ref list \<Rightarrow> ref list \<Rightarrow> state \<Rightarrow>
     typeHost \<times> state \<times> (string \<times> string) list" where
  "resolveModules env monaco oldRefs newRefs s =
     (let addRefs =
            filter (\<lambda>r. \<not> list_ex (\<lambda>r'. ref_module r' = ref_module r) oldRefs) newRefs;
          delRefs =
            filter (\<lambda>r. \<not> list_ex (\<lambda>r'. ref_module r' = ref_module r) newRefs) oldRefs;
          (addDeps, s1) = resolveDeps env (map dep_of_ref addRefs) s;
          (delDeps, s2) = resolveDeps env (map dep_of_ref delRefs) s1;
          libs0 = getExtraLibs monaco;
          libs1 = foreachDeps delDeps
                    (\<lambda>moduleName filePath content libs. remove_lib filePath libs) libs0;
          libs2 = foreachDeps addDeps
                    (\<lambda>moduleName filePath content libs.
                        remove_lib filePath libs @
                          [(''file:///node_modules/'' @ moduleName @ filePath, content)])
                    libs1
      in if length delDeps = 0 \<and> length addDeps = 0
         then (monaco, s2, depLoadErrors addDeps)
         else (setExtraLibs libs2 monaco, s2, depLoadErrors addDeps))"

subsection \<open>A small registry\<close>

text \<open>
  A registry with four packages, used to run the functions above. Packages \<open>a\<close> and
  \<open>b\<close> declare \<^verbatim>\<open>types\<close> and have no dependencies. Package \<open>c\<close> (versions 1.0.0 and
  2.0.0) declares no types and depends on \<open>b\<close>; its type package \<open>@types/c\<close> exists at
  1.0.0 only and depends on \<open>a\<close>. A request for anything else fails with the message of
  \<^verbatim>\<open>fj\<close>. The content of a file is its package name followed by its path, and
  \<^verbatim>\<open>getDTName\<close> flattens a scoped name.
\<close>

fun flatten_scope :: "string \<Rightarrow> string" where
  "flatten_scope [] = []"
| "flatten_scope (c # cs) =
     (if c = CHR ''/'' then ''__'' @ flatten_scope cs else c # flatten_scope cs)"

definition demo_getDTName :: "string \<Rightarrow> string" where
  "demo_getDTName m =
     (case m of [] \<Rightarrow> [] | c # cs \<Rightarrow> if c = CHR ''@'' then flatten_scope cs else m)"

definition demo_versions :: "(string \<times> string) list" where
  "demo_versions =
     [(''a'', ''1.0.0''), (''b'', ''1.0.0''), (''c'', ''1.0.0''), (''c'', ''2.0.0''),
      (''@types/c'', ''1.0.0'')]"

definition demo_files :: "string \<Rightarrow> string list" where
  "demo_files m =
     (if m = ''c'' then [''/package.json'', ''/index.js'']
      else [''/package.json'', ''/index.js'', ''/index.d.ts''])"

definition demo_calcVersion :: "string \<Rightarrow> string \<Rightarrow> exn + string option" where
  "demo_calcVersion m q =
     (if (m, q) \<in> set demo_versions then Inr (Some q)
      else Inl (Error (''Failed to load https://data.jsdelivr.com/v1/package/resolve/npm/''
                        @ m @ ''@'' @ q)))"

definition demo_getFileTree :: "string \<Rightarrow> string \<Rightarrow> exn + string list" where
  "demo_getFileTree m v =
     (if (m, v) \<in> set demo_versions then Inr (demo_files m)
      else Inl (Error (''Failed to load https://data.jsdelivr.com/v1/package/npm/''
                        @ m @ ''@'' @ v @ ''/flat'')))"

definition demo_getFileContent :: "string \<Rightarrow> string \<Rightarrow> string \<Rightarrow> exn + string" where
  "demo_getFileContent m v f = Inr (m @ f)"

definition demo_parse :: "string \<Rightarrow> exn + (string obj) ModuleMeta" where
  "demo_parse c =
     (if c = ''a/package.json'' \<or> c = ''b/package.json''
      then Inr (empty_meta\<lparr>types := Some ''index.d.ts''\<rparr>)
      else if c = ''c/package.json''
      then Inr (empty_meta\<lparr>main := Some ''index.js'',
                  dependencies := Some [(''b'', ''1.0.0'')]\<rparr>)
      else if c = ''@types/c/package.json''
      then Inr (empty_meta\<lparr>types := Some ''index.d.ts'',
                  dependencies := Some [(''a'', ''1.0.0'')]\<rparr>)
      else Inl (Error ''Unexpected token''))"

definition demo :: env where
  "demo = \<lparr>NPM_calcVersion = demo_calcVersion, NPM_getFileTree = demo_getFileTree,
           NPM_getFileContent = demo_getFileContent, JSON_parse = demo_parse,
           getDTName = demo_getDTName\<rparr>"

definition empty_state :: state where
  "empty_state = \<lparr>moduleCache = [], cachedMap = [], store = [], requests = []\<rparr>"

text \<open>The registry whose version resolution is out of reach while its files are served.\<close>

definition demo_offline :: env where
  "demo_offline = demo\<lparr>NPM_calcVersion := \<lambda>m q. Inl (Error ''Failed to fetch'')\<rparr>"

subsection \<open>Values the registry gives rise to\<close>

text \<open>A manifest with a \<^verbatim>\<open>types\<close> condition in its export map.\<close>

definition conditions_with_types :: export_conditions where
  "conditions_with_types =
     \<lparr>cond_import = None, cond_require = None, cond_browser = None, cond_node = None,
      cond_default = Some ''./index.js'', cond_types = Some ''./index.d.ts'',
      cond_typings = None\<rparr>"

text \<open>The stored manifests and files of the packages, and the states and trees they end in.\<close>

definition demo_typed_meta :: "addr ModuleMeta" where
  "demo_typed_meta =
     \<lparr>main = None, module = None, browser = None, typings = None,
      types = Some ''index.d.ts'', exports = None, dependencies = None\<rparr>"

definition demo_typed_files :: "string \<Rightarrow> string obj" where
  "demo_typed_files m =
     [(''/package.json'', m @ ''/package.json''), (''/index.d.ts'', m @ ''/index.d.ts'')]"

definition demo_c_meta :: "addr ModuleMeta" where
  "demo_c_meta =
     \<lparr>main = Some ''index.js'', module = None, browser = None, typings = None,
      types = None, exports = None, dependencies = Some 0\<rparr>"

definition demo_c_files :: "string obj" where
  "demo_c_files = [(''/package.json'', ''c/package.json'')]"

definition demo_types_c_meta :: "addr ModuleMeta" where
  "demo_types_c_meta =
     \<lparr>main = None, module = None, browser = None, typings = None,
      types = Some ''index.d.ts'', exports = None, dependencies = Some 1\<rparr>"

definition demo_c_tree :: "node obj" where
  "demo_c_tree =
     [(''0'', Tree [(''b'', Item (Loaded demo_typed_meta (demo_typed_files ''b'')))]),
      (''1'', Tree [(''a'', Item (Loaded demo_typed_meta (demo_typed_files ''a'')))]),
      (''c'', Item (Loaded demo_c_meta demo_c_files)),
      (''@types/c'', Item (Loaded demo_types_c_meta (demo_typed_files ''@types/c'')))]"

definition demo_c_state :: state where
  "demo_c_state =
     \<lparr>moduleCache =
        [(''c'', [(''1.0.0'', Loaded demo_c_meta demo_c_files)]),
         (''@types/c'',
          [(''1.0.0'', Loaded demo_types_c_meta (demo_typed_files ''@types/c''))]),
         (''b'', [(''1.0.0'', Loaded demo_typed_meta (demo_typed_files ''b''))]),
         (''a'', [(''1.0.0'', Loaded demo_typed_meta (demo_typed_files ''a''))])],
      cachedMap =
        [(''c@1.0.0[.d.ts]'', True), (''@types/c@1.0.0[.d.ts]'', True),
         (''b@1.0.0[.d.ts]'', True), (''a@1.0.0[.d.ts]'', True)],
      store = [[(''b'', ''1.0.0''), (''a'', ''1.0.0'')], [(''a'', ''1.0.0'')]],
      requests =
        [CalcVersion ''c'' ''1.0.0'', GetFileTree ''c'' ''1.0.0'',
         GetFileContent ''c'' ''1.0.0'' ''/package.json'',
         CalcVersion ''@types/c'' ''1.0.0'', GetFileTree ''@types/c'' ''1.0.0'',
         GetFileContent ''@types/c'' ''1.0.0'' ''/package.json'',
         GetFileContent ''@types/c'' ''1.0.0'' ''/index.d.ts'',
         CalcVersion ''b'' ''1.0.0'', GetFileTree ''b'' ''1.0.0'',
         GetFileContent ''b'' ''1.0.0'' ''/package.json'',
         GetFileContent ''b'' ''1.0.0'' ''/index.d.ts'',
         CalcVersion ''a'' ''1.0.0'', GetFileTree ''a'' ''1.0.0'',
         GetFileContent ''a'' ''1.0.0'' ''/package.json'',
         GetFileContent ''a'' ''1.0.0'' ''/index.d.ts'']\<rparr>"

definition demo_b_state :: state where
  "demo_b_state =
     \<lparr>moduleCache = [(''b'', [(''1.0.0'', Loaded demo_typed_meta (demo_typed_files ''b''))])],
      cachedMap = [(''b@1.0.0[.d.ts]'', True)], store = [],
      requests =
        [CalcVersion ''b'' ''1.0.0'', GetFileTree ''b'' ''1.0.0'',
         GetFileContent ''b'' ''1.0.0'' ''/package.json'',
         GetFileContent ''b'' ''1.0.0'' ''/index.d.ts'']\<rparr>"

definition demo_c2_loaded :: state where
  "demo_c2_loaded =
     \<lparr>moduleCache = [(''c'', [(''2.0.0'', Loaded demo_c_meta demo_c_files)])],
      cachedMap = [(''c@2.0.0[.d.ts]'', True)],
      store = [[(''b'', ''1.0.0'')]],
      requests =
        [CalcVersion ''c'' ''2.0.0'', GetFileTree ''c'' ''2.0.0'',
         GetFileContent ''c'' ''2.0.0'' ''/package.json'']\<rparr>"

definition demo_batch :: "(string \<times> string) list" where
  "demo_batch = [(''b'', ''1.0.0''), (''zzz'', ''1.0.0'')]"

definition demo_batch_outcomes :: "(exn + node obj) list" where
  "demo_batch_outcomes =
     [Inr [(''b'', Item (Loaded demo_typed_meta (demo_typed_files ''b'')))],
      Inl (Error ''Failed to load https://data.jsdelivr.com/v1/package/npm/zzz@1.0.0/flat'')]"

definition demo_ref_b :: ref where
  "demo_ref_b = \<lparr>ref_module = ''b'', ref_version = Some ''1.0.0''\<rparr>"

definition demo_libs_b :: "(string \<times> string) list" where
  "demo_libs_b =
     [(''file:///node_modules/b/package.json'', ''b/package.json''),
      (''file:///node_modules/b/index.d.ts'', ''b/index.d.ts'')]"

definition empty_host :: typeHost where
  "empty_host = \<lparr>extraLibs = [], setExtraLibs_calls = []\<rparr>"

definition demo_host :: typeHost where
  "demo_host =
     \<lparr>extraLibs = [(''file:///node_modules/b/index.d.ts'', ''b/index.d.ts'')],
      setExtraLibs_calls = []\<rparr>"

named_theorems eval \<open>equations that run the embedding on concrete arguments\<close>

lemmas [eval] = demo_def demo_offline_def demo_getDTName_def demo_versions_def demo_files_def
  demo_calcVersion_def demo_getFileTree_def demo_getFileContent_def demo_parse_def
  empty_state_def empty_meta_def
  getModule_def resolve_version_def ensure_module_def moduleCache_has_def request_def set_entry_def
  versions_of_def uniqKey_def uncached_def fetch_module_def wanted_def alloc_meta_def read_entry_def
  endsWith_def obj_set_def array_index_def digit_val_def Object_assign_def
  Object_fromEntries_def Object_assign_array_def dts_def isDTSModule_def
  load_fallback_def assign_deps_def deps_of_def
  resolveDeps_def settled_def dep_key_def foreachDeps_def truthy_def depLoadErrors_def
  resolveModules_def getExtraLibs_def setExtraLibs_def dep_of_ref_def
  Let_def

lemmas demo_values = demo_typed_meta_def demo_typed_files_def demo_c_meta_def
  demo_c_files_def demo_types_c_meta_def demo_c_tree_def demo_c_state_def

section \<open>Properties\<close>

subsection \<open>Objects\<close>

lemma decimal_digits: "decimal n k = Some r \<Longrightarrow> c \<in> set k \<Longrightarrow> digit_val c \<noteq> None"
  by (induction k arbitrary: n) (auto split: option.splits)

lemma array_index_at: "CHR ''@'' \<in> set k \<Longrightarrow> array_index k = None"
proof (rule ccontr)
  assume at: "CHR ''@'' \<in> set k" and "array_index k \<noteq> None"
  then obtain r where "decimal 0 k = Some r"
    by (auto simp: array_index_def split: list.splits if_splits option.splits)
  from decimal_digits [OF this at] show False
    by (simp add: digit_val_def)
qed

lemma update_fresh: "k \<notin> fst ` set ob \<Longrightarrow> AList.update k v ob = ob @ [(k, v)]"
  by (induction ob) auto

lemma obj_set_fresh:
  "array_index k = None \<Longrightarrow> k \<notin> fst ` set ob \<Longrightarrow> obj_set k v ob = ob @ [(k, v)]"
  by (simp add: obj_set_def update_fresh)

lemma map_of_insert_index_apply:
  "map_of ob k = None \<Longrightarrow>
   map_of (insert_index n k v ob) x = (if x = k then Some v else map_of ob x)"
  by (induction ob) (auto split: option.splits if_splits)

lemma map_of_insert_index:
  "map_of ob k = None \<Longrightarrow> map_of (insert_index n k v ob) = (map_of ob)(k \<mapsto> v)"
  by (rule ext) (simp add: map_of_insert_index_apply)

lemma map_of_obj_set: "map_of (obj_set k v ob) = (map_of ob)(k \<mapsto> v)"
  by (simp add: obj_set_def update_conv' map_of_insert_index split: option.splits)

lemma string_of_nat_0: "string_of_nat 0 = ''0''"
  by (simp add: string_of_nat.simps [of 0] digit_char_def)

lemma string_of_nat_Suc0: "string_of_nat (Suc 0) = ''1''"
  by (simp add: string_of_nat.simps [of "Suc 0"] digit_char_def)

subsection \<open>The cache\<close>

lemma requests_set_entry [simp]: "requests (set_entry m v item s) = requests s"
  by (simp add: set_entry_def)

lemma cachedMap_set_entry [simp]: "cachedMap (set_entry m v item s) = cachedMap s"
  by (simp add: set_entry_def)

lemma has_set_entry [simp]: "moduleCache_has (set_entry m v item s) m"
  by (simp add: moduleCache_has_def set_entry_def update_conv')

lemma has_requests [simp]: "moduleCache_has (s\<lparr>requests := rs\<rparr>) m = moduleCache_has s m"
  by (simp add: moduleCache_has_def)

lemma has_cachedMap [simp]: "moduleCache_has (s\<lparr>cachedMap := c\<rparr>) m = moduleCache_has s m"
  by (simp add: moduleCache_has_def)

lemma uncached_requests [simp]: "uncached (s\<lparr>requests := rs\<rparr>) key = uncached s key"
  by (simp add: uncached_def)

lemma uncached_set [simp]:
  "\<not> uncached (s\<lparr>cachedMap := AList.update key True (cachedMap s)\<rparr>) key"
  by (simp add: uncached_def update_conv')

lemma versions_of_set_entry [simp]:
  "versions_of (set_entry m v item s) m = obj_set v item (versions_of s m)"
  by (simp add: versions_of_def set_entry_def update_conv')

lemma versions_of_requests [simp]: "versions_of (s\<lparr>requests := rs\<rparr>) m = versions_of s m"
  by (simp add: versions_of_def)

lemma versions_of_cachedMap [simp]: "versions_of (s\<lparr>cachedMap := c\<rparr>) m = versions_of s m"
  by (simp add: versions_of_def)

lemma read_entry_set_entry:
  "read_entry m v (set_entry m v item s) =
     (case item of
        Loading \<Rightarrow> Inl (Error (''Module '' @ m @ ''@'' @ v @ '' is not loaded yet''))
      | Loaded meta files \<Rightarrow> Inr (meta, files)
      | LoadError msg \<Rightarrow> Inl (Error msg))"
  by (simp add: read_entry_def map_of_obj_set split: ModuleCacheItem.splits)

lemma read_entry_requests [simp]:
  "read_entry m v (s\<lparr>requests := rs\<rparr>) = read_entry m v s"
  by (simp add: read_entry_def)

lemma read_entry_cachedMap [simp]:
  "read_entry m v (s\<lparr>cachedMap := c\<rparr>) = read_entry m v s"
  by (simp add: read_entry_def)

lemma requests_ensure_module [simp]: "requests (ensure_module m s) = requests s"
  by (simp add: ensure_module_def)

lemma has_ensure_module: "moduleCache_has (ensure_module m s) m"
  by (simp add: ensure_module_def moduleCache_has_def update_conv')

lemma ensure_module_idem: "moduleCache_has s m \<Longrightarrow> ensure_module m s = s"
  by (simp add: ensure_module_def)

lemma fetch_sequences_append [simp]:
  "fetch_sequences (xs @ ys) = fetch_sequences xs + fetch_sequences ys"
  by (simp add: fetch_sequences_def)

lemma fetch_sequences_contents [simp]:
  "fetch_sequences (map (GetFileContent m v) names) = 0"
  by (induction names) (simp_all add: fetch_sequences_def)

lemma alloc_meta_fields:
  "alloc_meta pkg s = (meta, s') \<Longrightarrow>
   requests s' = requests s \<and> cachedMap s' = cachedMap s \<and> moduleCache s' = moduleCache s"
  by (auto simp: alloc_meta_def split: option.splits)

lemma has_fetch_module: "moduleCache_has (fetch_module env m v ext s) m"
  by (simp add: fetch_module_def Let_def split: sum.splits option.splits prod.splits)

lemma fetch_sequences_fetch_module:
  "fetch_sequences (requests (fetch_module env m v ext s)) = fetch_sequences (requests s) + 1"
  by (auto simp: fetch_module_def request_def Let_def fetch_sequences_def dest: alloc_meta_fields
      split: sum.splits option.splits prod.splits)

lemma requests_fetch_module:
  "\<exists>rest. requests (fetch_module env m v ext s) = requests s @ rest"
  by (auto simp: fetch_module_def request_def Let_def dest: alloc_meta_fields
      split: sum.splits option.splits prod.splits)

lemma requests_resolve_version:
  "requests (snd (resolve_version env m q s)) = requests s @ [CalcVersion m q]"
  by (simp add: resolve_version_def request_def Let_def split: sum.splits)

lemma resolve_version_ok:
  "NPM_calcVersion env m q = Inr r \<Longrightarrow>
   resolve_version env m q s =
     ((case r of None \<Rightarrow> ''null'' | Some v \<Rightarrow> v), request (CalcVersion m q) s)"
  by (simp add: resolve_version_def)

lemma getModule_requests:
  "\<exists>rest. requests (snd (getModule env m q ext force s)) = requests s @ CalcVersion m q # rest"
proof -
  obtain v s1 where rv: "resolve_version env m q (ensure_module m s) = (v, s1)"
    by (cases "resolve_version env m q (ensure_module m s)")
  have r1: "requests s1 = requests s @ [CalcVersion m q]"
    using requests_resolve_version [of env m q "ensure_module m s"] rv by simp
  obtain rest where "requests (fetch_module env m v ext s1) = requests s1 @ rest"
    using requests_fetch_module by blast
  with r1 rv show ?thesis
    by (simp add: getModule_def Let_def)
qed

text \<open>A query that neither resolves nor has a file tree makes the call fail.\<close>

lemma getModule_missing:
  assumes cv: "NPM_calcVersion env m q = Inl e1"
    and ft: "NPM_getFileTree env m q = Inl e2"
  shows "isl (fst (getModule env m q ext force s))"
proof -
  define s1 where "s1 = set_entry m q
      (LoadError (''Version '' @ q @ '' of module '' @ m @ '' does not exist''))
      (request (CalcVersion m q) (ensure_module m s))"
  have rv: "resolve_version env m q (ensure_module m s) = (q, s1)"
    using cv by (simp add: resolve_version_def s1_def Let_def)
  have cached: "read_entry m q s1 =
      Inl (Error (''Version '' @ q @ '' of module '' @ m @ '' does not exist''))"
    by (simp add: s1_def read_entry_set_entry)
  have fetched: "read_entry m q (fetch_module env m q ext s1) = Inl (Error (message e2))"
    using ft by (simp add: fetch_module_def Let_def read_entry_set_entry)
  show ?thesis
    using rv cached fetched by (simp add: getModule_def Let_def)
qed

text \<open>What one call does when the version resolution answers.\<close>

lemma getModule_ok_unfold:
  assumes "NPM_calcVersion env m q = Inr r"
    and "v = (case r of None \<Rightarrow> ''null'' | Some v \<Rightarrow> v)"
    and "s0 = request (CalcVersion m q) (ensure_module m s)"
  shows "getModule env m q ext force s =
     (if uncached s0 (uniqKey m v ext) \<or> force
      then (let s' = fetch_module env m v ext s0;
                s'' = s'\<lparr>cachedMap := AList.update (uniqKey m v ext) True (cachedMap s')\<rparr>
            in (read_entry m v s'', s''))
      else (read_entry m v s0, s0))"
  using assms by (simp add: getModule_def resolve_version_ok Let_def)

subsection \<open>Runs on the small registry\<close>

lemma getModule_demo_b:
  "getModule demo ''b'' ''1.0.0'' (Some [''.d.ts'']) False empty_state =
     (Inr (demo_typed_meta, demo_typed_files ''b''), demo_b_state)"
  by (simp add: eval demo_values demo_b_state_def)

lemma resolveDep_demo_c:
  "resolveDep demo ''c'' ''1.0.0'' 0 empty_state = (Inr demo_c_tree, demo_c_state)"
  by (simp add: eval demo_values resolveDep.simps string_of_nat_0 string_of_nat_Suc0)

lemma resolveDep_map_demo_batch:
  "fst (resolveDep_map demo demo_batch 0 empty_state) = demo_batch_outcomes"
  by (simp add: eval demo_values demo_batch_def demo_batch_outcomes_def resolveDep.simps
      Object_assign_array_def)

lemma resolveModules_add_b:
  "resolveModules demo empty_host [] [demo_ref_b] empty_state =
     (\<lparr>extraLibs = demo_libs_b, setExtraLibs_calls = [demo_libs_b]\<rparr>, demo_b_state, [])"
  by (simp add: eval demo_values demo_b_state_def demo_ref_b_def demo_libs_b_def empty_host_def
      resolveDep.simps)

subsection \<open>Classification of a manifest\<close>

lemma endsWith_iff: "endsWith s suf \<longleftrightarrow> (\<exists>stem. s = stem @ suf)"
proof
  assume "endsWith s suf"
  then have "s = take (length s - length suf) s @ suf"
    by (metis append_take_drop_id endsWith_def)
  then show "\<exists>stem. s = stem @ suf" ..
next
  assume "\<exists>stem. s = stem @ suf"
  then show "endsWith s suf" by (auto simp: endsWith_def)
qed

lemma dts_iff: "dts p \<longleftrightarrow> (\<exists>s. p = Some s \<and> names_declaration_file s)"
  by (cases p) (simp_all add: dts_def names_declaration_file_def endsWith_iff)

lemma isDTSModule_refines: "isDTSModule meta = self_describing meta"
proof (cases "exports meta")
  case None
  then show ?thesis
    by (simp add: isDTSModule_def self_describing_def dts_iff)
next
  case (Some e)
  have "list_ex (\<lambda>(key, val). case val of ExportString s \<Rightarrow> endsWith s ''.d.ts''
            | ExportConditions c \<Rightarrow> dts (cond_types c) \<or> dts (cond_typings c)) e
        \<longleftrightarrow> (\<exists>key p. (key, ExportString p) \<in> set e \<and> names_declaration_file p) \<or>
            (\<exists>key c p. (key, ExportConditions c) \<in> set e \<and>
               (cond_types c = Some p \<or> cond_typings c = Some p) \<and> names_declaration_file p)"
    (is "?L \<longleftrightarrow> ?R")
  proof
    assume ?L
    then obtain key val where kv: "(key, val) \<in> set e"
      and h: "case val of ExportString s \<Rightarrow> endsWith s ''.d.ts''
            | ExportConditions c \<Rightarrow> dts (cond_types c) \<or> dts (cond_typings c)"
      by (auto simp: list_ex_iff)
    show ?R
    proof (cases val)
      case (ExportString p)
      with kv h show ?thesis
        by (auto simp: names_declaration_file_def endsWith_iff)
    next
      case (ExportConditions c)
      with kv h show ?thesis
        by (simp add: dts_iff) blast
    qed
  next
    assume ?R
    then consider
        (str) key p where "(key, ExportString p) \<in> set e" "names_declaration_file p"
      | (conds) key c p where "(key, ExportConditions c) \<in> set e"
          "cond_types c = Some p \<or> cond_typings c = Some p" "names_declaration_file p"
      by blast
    then have "\<exists>x\<in>set e. case x of (key, val) \<Rightarrow>
              (case val of ExportString s \<Rightarrow> endsWith s ''.d.ts''
               | ExportConditions c \<Rightarrow> dts (cond_types c) \<or> dts (cond_typings c))"
    proof cases
      case str
      then show ?thesis
        by (intro bexI [of _ "(key, ExportString p)"])
          (simp_all add: names_declaration_file_def endsWith_iff)
    next
      case conds
      then show ?thesis
        by (intro bexI [of _ "(key, ExportConditions c)"]) (auto simp: dts_iff)
    qed
    then show ?L by (simp add: list_ex_iff)
  qed
  with Some show ?thesis
    by (simp add: isDTSModule_def self_describing_def dts_iff)
qed

text \<open>
  Claim C8. \<^verbatim>\<open>isDTSModule\<close> holds exactly when the \<^verbatim>\<open>typings\<close> field, the \<^verbatim>\<open>types\<close>
  field, a string value of the export map, or the \<^verbatim>\<open>types\<close>/\<^verbatim>\<open>typings\<close> sub-field of a
  conditions object of the export map names a \<^verbatim>\<open>.d.ts\<close> file. In particular a manifest
  with \<^verbatim>\<open>types: "index.d.ts"\<close> is self-describing; so is a manifest in which the
  \<^verbatim>\<open>types\<close> condition of an export-map entry names a \<^verbatim>\<open>.d.ts\<close> file, whatever its other
  fields are; a manifest with none of these fields is not, and \<^verbatim>\<open>resolveDep\<close> then
  requests the fallback package \<^verbatim>\<open>@types/<getDTName(module)>\<close>.
\<close>

theorem isDTSModule_classification:
  "(isDTSModule meta \<longleftrightarrow> self_describing meta) \<and>
   (types meta = Some ''index.d.ts'' \<longrightarrow> isDTSModule meta) \<and>
   (\<forall>e key c p. exports meta = Some e \<and> (key, ExportConditions c) \<in> set e \<and>
        cond_types c = Some p \<and> names_declaration_file p \<longrightarrow> isDTSModule meta) \<and>
   (typings meta = None \<and> types meta = None \<and> exports meta = None \<longrightarrow>
      \<not> isDTSModule meta \<and>
      load_fallback env m version modules meta s =
        (case getModule env (''@types/'' @ getDTName env m) version (Some [''.d.ts'']) False s of
           (Inr (meta', files'), s') \<Rightarrow>
             (obj_set (''@types/'' @ getDTName env m) (Item (Loaded meta' files')) modules,
              meta', s')
         | (Inl e, s') \<Rightarrow> (modules, empty_meta, s')))"
proof (intro conjI allI impI)
  show "isDTSModule meta \<longleftrightarrow> self_describing meta"
    by (rule isDTSModule_refines)
next
  assume "types meta = Some ''index.d.ts''"
  then show "isDTSModule meta"
    by (simp add: isDTSModule_def dts_def endsWith_def)
next
  fix e key c p
  assume "exports meta = Some e \<and> (key, ExportConditions c) \<in> set e \<and>
        cond_types c = Some p \<and> names_declaration_file p"
  then have "self_describing meta"
    unfolding self_describing_def by blast
  then show "isDTSModule meta"
    by (simp add: isDTSModule_refines)
next
  assume none: "typings meta = None \<and> types meta = None \<and> exports meta = None"
  then show no: "\<not> isDTSModule meta"
    by (simp add: isDTSModule_def dts_def)
  show "load_fallback env m version modules meta s =
        (case getModule env (''@types/'' @ getDTName env m) version (Some [''.d.ts'']) False s of
           (Inr (meta', files'), s') \<Rightarrow>
             (obj_set (''@types/'' @ getDTName env m) (Item (Loaded meta' files')) modules,
              meta', s')
         | (Inl e, s') \<Rightarrow> (modules, empty_meta, s'))"
    using no by (simp add: load_fallback_def Let_def split: prod.split sum.split)
qed

theorem isDTSModule_classification_witness:
  "isDTSModule ((empty_meta :: addr ModuleMeta)\<lparr>types := Some ''index.d.ts''\<rparr>) \<and>
   isDTSModule ((empty_meta :: addr ModuleMeta)
       \<lparr>exports := Some [(''.'', ExportConditions conditions_with_types)]\<rparr>) \<and>
   \<not> isDTSModule (empty_meta :: addr ModuleMeta) \<and>
   \<not> self_describing (empty_meta :: addr ModuleMeta)"
proof -
  let ?m1 = "(empty_meta :: addr ModuleMeta)\<lparr>types := Some ''index.d.ts''\<rparr>"
  let ?m2 = "(empty_meta :: addr ModuleMeta)
       \<lparr>exports := Some [(''.'', ExportConditions conditions_with_types)]\<rparr>"
  let ?m3 = "empty_meta :: addr ModuleMeta"
  have 1: "isDTSModule ?m1"
    by (rule isDTSModule_classification
          [of ?m1, THEN conjunct2, THEN conjunct1, rule_format]) simp
  have n: "names_declaration_file ''./index.d.ts''"
    unfolding names_declaration_file_def by (rule exI [of _ "''./index''"]) simp
  have 2: "isDTSModule ?m2"
    by (rule isDTSModule_classification
          [of ?m2, THEN conjunct2, THEN conjunct2, THEN conjunct1, rule_format,
           of "[(''.'', ExportConditions conditions_with_types)]" "''.''"
             conditions_with_types "''./index.d.ts''"])
       (simp add: n, simp add: conditions_with_types_def)
  have none: "typings ?m3 = None \<and> types ?m3 = None \<and> exports ?m3 = None"
    by (simp add: empty_meta_def)
  have 3: "\<not> isDTSModule ?m3"
    using isDTSModule_classification
          [of ?m3, THEN conjunct2, THEN conjunct2, THEN conjunct2, rule_format, OF none]
    by (rule conjunct1)
  have 4: "\<not> self_describing ?m3"
    using 3 isDTSModule_classification [of ?m3, THEN conjunct1] by simp
  from 1 2 3 4 show ?thesis by simp
qed

subsection \<open>A version query that does not resolve\<close>

text \<open>
  Claim C3 says that when the version resolution fails, an \<^verbatim>\<open>Error\<close> entry naming the
  query and the package is recorded under the query and the call fails with that
  message. \<^verbatim>\<open>getModule\<close> records that entry in its \<^verbatim>\<open>catch\<close> block and then goes on
  to line 60: on a first request the entry is overwritten by \<^verbatim>\<open>loading\<close> and the file
  tree of the unresolved query is requested. On the small registry, for \<open>b\<close> at the
  unknown \<open>9.9.9\<close>: the \<^verbatim>\<open>catch\<close> block records the entry; the call fails with the
  message of the file-tree request, and that message is what the slot \<open>9.9.9\<close> holds
  afterwards; only a second call, which finds the key marked, fails with the recorded
  message. With the registry whose version resolution is out of reach, the call for
  \<open>b\<close> at \<open>1.0.0\<close> returns the loaded entry and the slot \<open>1.0.0\<close> holds it: no error
  is recorded and no failure is signalled.
\<close>

theorem getModule_unresolved_version_falls_through:
  "map_of (versions_of (snd (resolve_version demo ''b'' ''9.9.9''
       (ensure_module ''b'' empty_state))) ''b'') ''9.9.9'' =
     Some (LoadError ''Version 9.9.9 of module b does not exist'') \<and>
   fst (getModule demo ''b'' ''9.9.9'' (Some [''.d.ts'']) False empty_state) =
     Inl (Error ''Failed to load https://data.jsdelivr.com/v1/package/npm/b@9.9.9/flat'') \<and>
   map_of (versions_of
       (snd (getModule demo ''b'' ''9.9.9'' (Some [''.d.ts'']) False empty_state)) ''b'')
     ''9.9.9'' =
     Some (LoadError ''Failed to load https://data.jsdelivr.com/v1/package/npm/b@9.9.9/flat'') \<and>
   fst (getModule demo ''b'' ''9.9.9'' (Some [''.d.ts'']) False
       (snd (getModule demo ''b'' ''9.9.9'' (Some [''.d.ts'']) False empty_state))) =
     Inl (Error ''Version 9.9.9 of module b does not exist'') \<and>
   isl (NPM_calcVersion demo_offline ''b'' ''1.0.0'') \<and>
   fst (getModule demo_offline ''b'' ''1.0.0'' (Some [''.d.ts'']) False empty_state) =
     Inr (demo_typed_meta, demo_typed_files ''b'') \<and>
   map_of (versions_of
       (snd (getModule demo_offline ''b'' ''1.0.0'' (Some [''.d.ts'']) False empty_state)) ''b'')
     ''1.0.0'' = Some (Loaded demo_typed_meta (demo_typed_files ''b''))"
proof (intro conjI)
  show "map_of (versions_of (snd (resolve_version demo ''b'' ''9.9.9''
       (ensure_module ''b'' empty_state))) ''b'') ''9.9.9'' =
     Some (LoadError ''Version 9.9.9 of module b does not exist'')"
    by (simp add: eval)
  show "fst (getModule demo ''b'' ''9.9.9'' (Some [''.d.ts'']) False empty_state) =
     Inl (Error ''Failed to load https://data.jsdelivr.com/v1/package/npm/b@9.9.9/flat'')"
    by (simp add: eval)
  show "map_of (versions_of
       (snd (getModule demo ''b'' ''9.9.9'' (Some [''.d.ts'']) False empty_state)) ''b'')
     ''9.9.9'' =
     Some (LoadError ''Failed to load https://data.jsdelivr.com/v1/package/npm/b@9.9.9/flat'')"
    by (simp add: eval)
  show "fst (getModule demo ''b'' ''9.9.9'' (Some [''.d.ts'']) False
       (snd (getModule demo ''b'' ''9.9.9'' (Some [''.d.ts'']) False empty_state))) =
     Inl (Error ''Version 9.9.9 of module b does not exist'')"
    by (simp add: eval)
  show "isl (NPM_calcVersion demo_offline ''b'' ''1.0.0'')"
    by (simp add: eval)
  show "fst (getModule demo_offline ''b'' ''1.0.0'' (Some [''.d.ts'']) False empty_state) =
     Inr (demo_typed_meta, demo_typed_files ''b'')"
    by (simp add: eval demo_values)
  show "map_of (versions_of
       (snd (getModule demo_offline ''b'' ''1.0.0'' (Some [''.d.ts'']) False empty_state)) ''b'')
     ''1.0.0'' = Some (Loaded demo_typed_meta (demo_typed_files ''b''))"
    by (simp add: eval demo_values)
qed

subsection \<open>Memoisation of \<^verbatim>\<open>getModule\<close>\<close>

text \<open>
  Claim C4, amended. For every package, version query that the registry resolves, and
  extension filter, two successive calls of \<^verbatim>\<open>getModule\<close> without \<^verbatim>\<open>forceReload\<close> and
  with the same extension filter (the same list: the memo key joins the filter in the
  order given) perform at most one fetch sequence: the second call returns the result
  of the first and adds nothing to the state but its own version resolution.
\<close>

theorem getModule_memo:
  assumes cv: "NPM_calcVersion env m q = Inr r"
    and one: "getModule env m q ext False s = (res1, s1)"
    and two: "getModule env m q ext False s1 = (res2, s2)"
  shows "res2 = res1 \<and>
         s2 = s1\<lparr>requests := requests s1 @ [CalcVersion m q]\<rparr> \<and>
         fetch_sequences (requests s2) \<le> fetch_sequences (requests s) + 1"
proof -
  define v where "v = (case r of None \<Rightarrow> ''null'' | Some v \<Rightarrow> v)"
  define s0 where "s0 = request (CalcVersion m q) (ensure_module m s)"
  define key where "key = uniqKey m v ext"
  have present0: "moduleCache_has s0 m"
    by (simp add: s0_def request_def has_ensure_module)
  have fs0: "fetch_sequences (requests s0) = fetch_sequences (requests s)"
    by (simp add: s0_def request_def ensure_module_def fetch_sequences_def)
  text \<open>After the first call the key is marked, and the result is read from the slot.\<close>
  have first: "\<not> uncached s1 key \<and> moduleCache_has s1 m \<and>
      res1 = read_entry m v s1 \<and> fetch_sequences (requests s1) \<le> fetch_sequences (requests s) + 1"
  proof (cases "uncached s0 key")
    case False
    then have "getModule env m q ext False s = (read_entry m v s0, s0)"
      using getModule_ok_unfold [OF cv v_def s0_def, of ext False] by (simp add: key_def)
    with one have "res1 = read_entry m v s0" and "s1 = s0" by auto
    with False present0 fs0 show ?thesis by simp
  next
    case True
    define s' where "s' = fetch_module env m v ext s0"
    define s'' where "s'' = s'\<lparr>cachedMap := AList.update key True (cachedMap s')\<rparr>"
    from True have "getModule env m q ext False s = (read_entry m v s'', s'')"
      using getModule_ok_unfold [OF cv v_def s0_def, of ext False]
      by (simp add: key_def s'_def s''_def Let_def)
    with one have r: "res1 = read_entry m v s''" and s: "s1 = s''" by auto
    have "\<not> uncached s'' key"
      by (simp add: s''_def)
    moreover have "moduleCache_has s'' m"
      by (simp add: s''_def s'_def has_fetch_module)
    moreover have "fetch_sequences (requests s'') = fetch_sequences (requests s) + 1"
      by (simp add: s''_def s'_def fetch_sequences_fetch_module fs0)
    ultimately show ?thesis using r s by simp
  qed
  text \<open>The second call resolves the version, finds the key marked and reads the same slot.\<close>
  define t0 where "t0 = request (CalcVersion m q) (ensure_module m s1)"
  have t0: "t0 = s1\<lparr>requests := requests s1 @ [CalcVersion m q]\<rparr>"
    using first by (simp add: t0_def ensure_module_idem request_def)
  have "\<not> uncached t0 key"
    using first by (simp add: t0)
  then have "getModule env m q ext False s1 = (read_entry m v t0, t0)"
    using getModule_ok_unfold [OF cv v_def t0_def, of ext False] by (simp add: key_def)
  with two have r2: "res2 = read_entry m v t0" and s2: "s2 = t0" by auto
  have "res2 = res1" using r2 first by (simp add: t0)
  moreover have "s2 = s1\<lparr>requests := requests s1 @ [CalcVersion m q]\<rparr>" using s2 t0 by simp
  moreover have "fetch_sequences (requests s2) \<le> fetch_sequences (requests s) + 1"
    using s2 t0 first by (simp add: fetch_sequences_def)
  ultimately show ?thesis by simp
qed

theorem getModule_memo_witness:
  "NPM_calcVersion demo ''b'' ''1.0.0'' = Inr (Some ''1.0.0'') \<and>
   getModule demo ''b'' ''1.0.0'' (Some [''.d.ts'']) False empty_state =
     (Inr (demo_typed_meta, demo_typed_files ''b''), demo_b_state) \<and>
   getModule demo ''b'' ''1.0.0'' (Some [''.d.ts'']) False demo_b_state =
     (Inr (demo_typed_meta, demo_typed_files ''b''),
      demo_b_state\<lparr>requests := requests demo_b_state @ [CalcVersion ''b'' ''1.0.0'']\<rparr>) \<and>
   fetch_sequences (requests demo_b_state) = 1"
proof -
  have cv: "NPM_calcVersion demo ''b'' ''1.0.0'' = Inr (Some ''1.0.0'')"
    by (simp add: eval)
  obtain res2 s2 where two:
    "getModule demo ''b'' ''1.0.0'' (Some [''.d.ts'']) False demo_b_state = (res2, s2)"
    by (cases "getModule demo ''b'' ''1.0.0'' (Some [''.d.ts'']) False demo_b_state")
  from getModule_memo [OF cv getModule_demo_b two]
  have "res2 = Inr (demo_typed_meta, demo_typed_files ''b'')"
    and "s2 = demo_b_state\<lparr>requests := requests demo_b_state @ [CalcVersion ''b'' ''1.0.0'']\<rparr>"
    by simp_all
  moreover have "fetch_sequences (requests demo_b_state) = 1"
    by (simp add: demo_b_state_def fetch_sequences_def)
  ultimately show ?thesis
    using cv getModule_demo_b two by simp
qed

text \<open>
  The claim as stated fails: the filters \<^verbatim>\<open>['.d.ts', '.ts']\<close> and \<^verbatim>\<open>['.ts', '.d.ts']\<close>
  are equal as sets, and the two calls list the file tree twice.
\<close>

theorem getModule_memo_unsorted_counterexample:
  "set [''.d.ts'', ''.ts''] = set [''.ts'', ''.d.ts''] \<and>
   fetch_sequences (requests (snd (getModule demo ''b'' ''1.0.0'' (Some [''.ts'', ''.d.ts'']) False
      (snd (getModule demo ''b'' ''1.0.0'' (Some [''.d.ts'', ''.ts'']) False empty_state))))) = 2"
proof
  show "set [''.d.ts'', ''.ts''] = set [''.ts'', ''.d.ts'']"
    by auto
  show "fetch_sequences (requests (snd (getModule demo ''b'' ''1.0.0'' (Some [''.ts'', ''.d.ts'']) False
      (snd (getModule demo ''b'' ''1.0.0'' (Some [''.d.ts'', ''.ts'']) False empty_state))))) = 2"
    by (simp add: eval fetch_sequences_def)
qed

subsection \<open>The depth bound\<close>

text \<open>
  Claim C6. For every package, version and depth above 2, \<^verbatim>\<open>resolveDep\<close> returns the
  empty tree and leaves the state as it was: no request is added (no version
  resolution, no file-tree listing, no file-content fetch) and the cache is untouched.
\<close>

theorem resolveDep_too_deep:
  "2 < depth \<Longrightarrow>
   resolveDep env m version depth s = (Inr [], s) \<and>
   requests (snd (resolveDep env m version depth s)) = requests s"
  by (simp add: resolveDep.simps)

theorem resolveDep_too_deep_witness:
  "(2::nat) < 3 \<and> resolveDep demo ''c'' ''1.0.0'' 3 empty_state = (Inr [], empty_state) \<and>
   requests (snd (resolveDep demo ''c'' ''1.0.0'' 3 empty_state)) = requests empty_state"
  using resolveDep_too_deep [of 3 demo "''c''" "''1.0.0''" empty_state] by simp

subsection \<open>The fallback type package\<close>

lemma resolveDep_unfold:
  assumes "depth \<le> 2"
    and "getModule env m version (Some [''.d.ts'']) False s = (Inr (meta, files), s1)"
  shows "resolveDep env m version depth s =
     (case load_fallback env m version [(m, Item (Loaded meta files))] meta s1 of
        (modules, dtsMeta, s2) \<Rightarrow> resolveDep_merge env modules meta dtsMeta depth s2)"
  using assms by (simp add: resolveDep.simps resolveDep_merge_def split: prod.splits)

text \<open>
  Claim C10. Let the primary package load and its manifest not be self-describing, at
  a depth of at most 2. Then \<^verbatim>\<open>resolveDep\<close> calls \<^verbatim>\<open>getModule\<close> for
  \<^verbatim>\<open>@types/<getDTName(module)>\<close> with the version string it was given for the primary
  package: the first request after the primary load is the version resolution of that
  name at that string. When that call fails, \<^verbatim>\<open>resolveDep\<close> goes on with the primary
  entry alone and an empty fallback manifest (the failure is not propagated). It does
  fail whenever the version resolution and the file-tree listing of the fallback at
  that string both fail.
\<close>

theorem resolveDep_fallback_same_version:
  assumes depth: "depth \<le> 2"
    and primary: "getModule env m version (Some [''.d.ts'']) False s = (Inr (meta, files), s1)"
    and nd: "\<not> isDTSModule meta"
    and fb: "getModule env (''@types/'' @ getDTName env m) version (Some [''.d.ts'']) False s1
               = (r, s2)"
  shows "(\<exists>rest. requests s2 =
            requests s1 @ CalcVersion (''@types/'' @ getDTName env m) version # rest) \<and>
         resolveDep env m version depth s =
           (case r of
              Inr (meta', files') \<Rightarrow>
                resolveDep_merge env
                  (obj_set (''@types/'' @ getDTName env m) (Item (Loaded meta' files'))
                     [(m, Item (Loaded meta files))])
                  meta meta' depth s2
            | Inl e \<Rightarrow>
                resolveDep_merge env [(m, Item (Loaded meta files))] meta empty_meta depth s2) \<and>
         (isl (NPM_calcVersion env (''@types/'' @ getDTName env m) version) \<and>
          isl (NPM_getFileTree env (''@types/'' @ getDTName env m) version) \<longrightarrow> isl r)"
proof (intro conjI impI)
  show "\<exists>rest. requests s2 =
            requests s1 @ CalcVersion (''@types/'' @ getDTName env m) version # rest"
    using getModule_requests
      [of env "''@types/'' @ getDTName env m" version "Some [''.d.ts'']" False s1] fb
    by simp
next
  show "resolveDep env m version depth s =
           (case r of
              Inr (meta', files') \<Rightarrow>
                resolveDep_merge env
                  (obj_set (''@types/'' @ getDTName env m) (Item (Loaded meta' files'))
                     [(m, Item (Loaded meta files))])
                  meta meta' depth s2
            | Inl e \<Rightarrow>
                resolveDep_merge env [(m, Item (Loaded meta files))] meta empty_meta depth s2)"
    using nd fb
    by (simp add: resolveDep_unfold [OF depth primary] load_fallback_def Let_def
        split: sum.splits prod.splits)
next
  assume "isl (NPM_calcVersion env (''@types/'' @ getDTName env m) version) \<and>
          isl (NPM_getFileTree env (''@types/'' @ getDTName env m) version)"
  then obtain e1 e2 where
      "NPM_calcVersion env (''@types/'' @ getDTName env m) version = Inl e1"
      "NPM_getFileTree env (''@types/'' @ getDTName env m) version = Inl e2"
    by (auto simp: isl_def)
  from getModule_missing [OF this, of "Some [''.d.ts'']" False s1] fb
  show "isl r" by simp
qed

theorem resolveDep_fallback_same_version_witness:
  "(0::nat) \<le> 2 \<and>
   getModule demo ''c'' ''2.0.0'' (Some [''.d.ts'']) False empty_state =
     (Inr (demo_c_meta, demo_c_files), demo_c2_loaded) \<and>
   \<not> isDTSModule demo_c_meta \<and>
   isl (NPM_calcVersion demo ''@types/c'' ''2.0.0'') \<and>
   isl (NPM_getFileTree demo ''@types/c'' ''2.0.0'') \<and>
   isl (fst (getModule demo ''@types/c'' ''2.0.0'' (Some [''.d.ts'']) False demo_c2_loaded)) \<and>
   (\<exists>rest. requests (snd (getModule demo ''@types/c'' ''2.0.0'' (Some [''.d.ts'']) False
        demo_c2_loaded)) = requests demo_c2_loaded @ CalcVersion ''@types/c'' ''2.0.0'' # rest) \<and>
   resolveDep demo ''c'' ''2.0.0'' 0 empty_state =
     resolveDep_merge demo [(''c'', Item (Loaded demo_c_meta demo_c_files))] demo_c_meta
       empty_meta 0
       (snd (getModule demo ''@types/c'' ''2.0.0'' (Some [''.d.ts'']) False demo_c2_loaded))"
proof -
  have name: "''@types/'' @ getDTName demo ''c'' = ''@types/c''"
    by (simp add: eval)
  have primary: "getModule demo ''c'' ''2.0.0'' (Some [''.d.ts'']) False empty_state =
     (Inr (demo_c_meta, demo_c_files), demo_c2_loaded)"
    by (simp add: eval demo_values demo_c2_loaded_def)
  have nd: "\<not> isDTSModule demo_c_meta"
    by (simp add: isDTSModule_def dts_def demo_c_meta_def)
  have cv: "isl (NPM_calcVersion demo ''@types/c'' ''2.0.0'')"
    by (simp add: eval)
  have ft: "isl (NPM_getFileTree demo ''@types/c'' ''2.0.0'')"
    by (simp add: eval)
  obtain r s2 where fb:
    "getModule demo ''@types/c'' ''2.0.0'' (Some [''.d.ts'']) False demo_c2_loaded = (r, s2)"
    by (cases "getModule demo ''@types/c'' ''2.0.0'' (Some [''.d.ts'']) False demo_c2_loaded")
  have fb': "getModule demo (''@types/'' @ getDTName demo ''c'') ''2.0.0'' (Some [''.d.ts''])
      False demo_c2_loaded = (r, s2)"
    using fb by (simp only: name)
  have le: "(0::nat) \<le> 2" by simp
  note t = resolveDep_fallback_same_version [OF le primary nd fb', unfolded name]
  from t cv ft have r: "isl r" by blast
  then obtain e where e: "r = Inl e" by (cases r) simp_all
  from t have "resolveDep demo ''c'' ''2.0.0'' 0 empty_state =
     resolveDep_merge demo [(''c'', Item (Loaded demo_c_meta demo_c_files))] demo_c_meta
       empty_meta 0 s2"
    by (simp add: e)
  moreover from t have "\<exists>rest. requests s2 =
      requests demo_c2_loaded @ CalcVersion ''@types/c'' ''2.0.0'' # rest"
    by blast
  ultimately show ?thesis
    using le primary nd cv ft r fb by simp
qed

subsection \<open>The tree and the manifest after a resolution\<close>

text \<open>
  Claim C1 says that the trees of the recursive calls are merged into the result keyed
  by package name. \<^verbatim>\<open>Object.assign(modules, resolvedDeps)\<close> is given the array of
  trees, so tree \<open>i\<close> is stored, whole, under the key \<open>String(i)\<close>. On the small
  registry, \<^verbatim>\<open>resolveDep("c", "1.0.0")\<close> at depth 0 loads \<open>c\<close> (which depends on \<open>b\<close>)
  and \<open>@types/c\<close> (which depends on \<open>a\<close>); the tree it returns has the keys \<open>0\<close>, \<open>1\<close>,
  \<open>c\<close> and \<open>@types/c\<close>, the entry of \<open>b\<close> sits inside the tree stored under \<open>0\<close>, and
  neither \<open>b\<close> nor \<open>a\<close> is a key.
\<close>

theorem resolveDep_children_under_indices:
  "fst (resolveDep demo ''c'' ''1.0.0'' 0 empty_state) = Inr demo_c_tree \<and>
   map fst demo_c_tree = [''0'', ''1'', ''c'', ''@types/c''] \<and>
   map_of demo_c_tree ''0'' = Some (Tree [(''b'', Item (Loaded demo_typed_meta (demo_typed_files ''b'')))]) \<and>
   map_of demo_c_tree ''b'' = None \<and> map_of demo_c_tree ''a'' = None"
  by (simp add: resolveDep_demo_c) (simp add: demo_c_tree_def)

text \<open>
  Claim C7 says that a manifest in a loaded cache entry is not modified after parsing.
  The target of \<^verbatim>\<open>Object.assign\<close> at line 152 is the \<^verbatim>\<open>dependencies\<close> object of the
  cached manifest itself. On the small registry the manifest of \<open>c\<close> is parsed with
  the dependency map \<open>{b: 1.0.0}\<close>; after \<^verbatim>\<open>resolveDep("c", "1.0.0")\<close> the cache still
  holds the same entry for \<open>c\<close>, and the dependency map of its manifest reads
  \<open>{b: 1.0.0, a: 1.0.0}\<close>: the dependencies of \<open>@types/c\<close> were written into it.
\<close>

theorem resolveDep_changes_cached_manifest:
  "fst (getModule demo ''c'' ''1.0.0'' (Some [''.d.ts'']) False empty_state) =
     Inr (demo_c_meta, demo_c_files) \<and>
   deps_of (snd (getModule demo ''c'' ''1.0.0'' (Some [''.d.ts'']) False empty_state)) demo_c_meta =
     [(''b'', ''1.0.0'')] \<and>
   snd (resolveDep demo ''c'' ''1.0.0'' 0 empty_state) = demo_c_state \<and>
   read_entry ''c'' ''1.0.0'' demo_c_state = Inr (demo_c_meta, demo_c_files) \<and>
   deps_of demo_c_state demo_c_meta = [(''b'', ''1.0.0''), (''a'', ''1.0.0'')]"
proof (intro conjI)
  show "fst (getModule demo ''c'' ''1.0.0'' (Some [''.d.ts'']) False empty_state) =
     Inr (demo_c_meta, demo_c_files)"
    by (simp add: eval demo_values)
  show "deps_of (snd (getModule demo ''c'' ''1.0.0'' (Some [''.d.ts'']) False empty_state))
          demo_c_meta = [(''b'', ''1.0.0'')]"
    by (simp add: eval demo_values)
  show "snd (resolveDep demo ''c'' ''1.0.0'' 0 empty_state) = demo_c_state"
    by (simp add: resolveDep_demo_c)
  show "read_entry ''c'' ''1.0.0'' demo_c_state = Inr (demo_c_meta, demo_c_files)"
    by (simp add: read_entry_def versions_of_def demo_c_state_def)
  show "deps_of demo_c_state demo_c_meta = [(''b'', ''1.0.0''), (''a'', ''1.0.0'')]"
    by (simp add: deps_of_def demo_c_state_def demo_c_meta_def)
qed

subsection \<open>The batch\<close>

lemma length_resolveDep_map: "length (fst (resolveDep_map env deps depth s)) = length deps"
proof (induction deps arbitrary: s)
  case Nil
  then show ?case by simp
next
  case (Cons d deps)
  obtain m version where d: "d = (m, version)" by (cases d)
  obtain r s1 where r: "resolveDep env m version depth s = (r, s1)" by (cases "resolveDep env m version depth s")
  obtain rs s2 where rs: "resolveDep_map env deps depth s1 = (rs, s2)"
    by (cases "resolveDep_map env deps depth s1")
  from Cons.IH [of s1] rs have "length rs = length deps" by simp
  with d r rs show ?case by simp
qed

lemma dep_key_at: "CHR ''@'' \<in> set (dep_key d)"
  by (simp add: dep_key_def)

lemma reduce_distinct:
  assumes "distinct (map fst acc @ map dep_key ds)"
  shows "foldl (\<lambda>acc (d, result). obj_set (dep_key d) (settled result) acc) acc (zip ds rs) =
         acc @ map (\<lambda>(d, result). (dep_key d, settled result)) (zip ds rs)"
  using assms
proof (induction ds arbitrary: acc rs)
  case Nil
  then show ?case by simp
next
  case (Cons d ds)
  show ?case
  proof (cases rs)
    case Nil
    then show ?thesis by simp
  next
    case (Cons r rs')
    have fresh: "dep_key d \<notin> fst ` set acc"
      using Cons.prems by auto
    have step: "obj_set (dep_key d) (settled r) acc = acc @ [(dep_key d, settled r)]"
      by (rule obj_set_fresh [OF array_index_at [OF dep_key_at] fresh])
    have "distinct (map fst (acc @ [(dep_key d, settled r)]) @ map dep_key ds)"
      using Cons.prems by auto
    from Cons.IH [OF this, of rs'] show ?thesis
      by (simp add: Cons step)
  qed
qed

lemma resolveDeps_distinct:
  assumes "distinct (map dep_key deps)"
    and "resolveDep_map env deps 0 s = (outcomes, s')"
  shows "resolveDeps env deps s =
           (map (\<lambda>(d, result). (dep_key d, settled result)) (zip deps outcomes), s')"
  using assms reduce_distinct [of "[]" deps outcomes] by (simp add: resolveDeps_def)

lemma filter_settled:
  "length (filter (\<lambda>(k, d). depLoadError d \<noteq> None)
      (map (\<lambda>(d, result). (dep_key d, settled result)) (zip ds rs))) =
   length (filter isl (take (length ds) rs))"
proof (induction ds arbitrary: rs)
  case Nil
  then show ?case by simp
next
  case (Cons d ds)
  then show ?case
    by (cases rs) (auto simp: settled_def split: sum.splits)
qed

lemma keys_settled:
  "length rs = length ds \<Longrightarrow>
   map fst (map (\<lambda>(d, result). (dep_key d, settled result)) (zip ds rs)) = map dep_key ds"
  by (induction rs ds rule: list_induct2) simp_all

text \<open>
  Claim C5, amended. For every list of N references whose keys
  \<^verbatim>\<open>package@versionQuery\<close> are pairwise distinct and of which exactly one fails to
  resolve, \<^verbatim>\<open>resolveDeps\<close> returns a mapping with exactly N entries, keyed by
  \<^verbatim>\<open>package@versionQuery\<close> in the order of the list; the entry of each reference is
  what its own \<^verbatim>\<open>resolveDep\<close> call ended with: the error message alone (no tree) for
  the one that failed, the resolved tree for each of the others; exactly one entry
  holds an error message.
\<close>

theorem resolveDeps_isolates_failure:
  assumes distinct: "distinct (map dep_key deps)"
    and run: "resolveDep_map env deps 0 s = (outcomes, s')"
    and one: "length (filter isl outcomes) = 1"
  shows "length (fst (resolveDeps env deps s)) = length deps \<and>
         map fst (fst (resolveDeps env deps s)) = map dep_key deps \<and>
         (\<forall>i<length deps. snd (fst (resolveDeps env deps s) ! i) =
            (case outcomes ! i of
               Inl e \<Rightarrow> \<lparr>depLoadError = Some (message e), dep_modules = []\<rparr>
             | Inr tree \<Rightarrow> \<lparr>depLoadError = None, dep_modules = tree\<rparr>)) \<and>
         length (filter (\<lambda>(k, d). depLoadError d \<noteq> None) (fst (resolveDeps env deps s))) = 1"
proof -
  have len: "length outcomes = length deps"
    using length_resolveDep_map [of env deps 0 s] run by simp
  note eq = resolveDeps_distinct [OF distinct run]
  have "length (fst (resolveDeps env deps s)) = length deps"
    by (simp add: eq len)
  moreover have "map fst (fst (resolveDeps env deps s)) = map dep_key deps"
    using len by (simp only: eq fst_conv keys_settled)
  moreover have "\<forall>i<length deps. snd (fst (resolveDeps env deps s) ! i) =
            (case outcomes ! i of
               Inl e \<Rightarrow> \<lparr>depLoadError = Some (message e), dep_modules = []\<rparr>
             | Inr tree \<Rightarrow> \<lparr>depLoadError = None, dep_modules = tree\<rparr>)"
    using len by (simp add: eq settled_def)
  moreover have
    "length (filter (\<lambda>(k, d). depLoadError d \<noteq> None) (fst (resolveDeps env deps s))) = 1"
    using one len by (simp only: eq fst_conv filter_settled) simp
  ultimately show ?thesis by simp
qed

theorem resolveDeps_isolates_failure_witness:
  "distinct (map dep_key demo_batch) \<and>
   length (filter isl demo_batch_outcomes) = 1 \<and>
   map fst (fst (resolveDeps demo demo_batch empty_state)) = [''b@1.0.0'', ''zzz@1.0.0''] \<and>
   snd (fst (resolveDeps demo demo_batch empty_state) ! 0) =
     \<lparr>depLoadError = None,
      dep_modules = [(''b'', Item (Loaded demo_typed_meta (demo_typed_files ''b'')))]\<rparr> \<and>
   snd (fst (resolveDeps demo demo_batch empty_state) ! 1) =
     \<lparr>depLoadError =
        Some ''Failed to load https://data.jsdelivr.com/v1/package/npm/zzz@1.0.0/flat'',
      dep_modules = []\<rparr>"
proof -
  have d: "distinct (map dep_key demo_batch)"
    by (simp add: demo_batch_def dep_key_def)
  have run: "resolveDep_map demo demo_batch 0 empty_state =
      (demo_batch_outcomes, snd (resolveDep_map demo demo_batch 0 empty_state))"
    using resolveDep_map_demo_batch by (simp add: prod_eq_iff)
  have one: "length (filter isl demo_batch_outcomes) = 1"
    by (simp add: demo_batch_outcomes_def)
  note t = resolveDeps_isolates_failure [OF d run one]
  have keys: "map fst (fst (resolveDeps demo demo_batch empty_state)) = [''b@1.0.0'', ''zzz@1.0.0'']"
    using t by (simp add: demo_batch_def dep_key_def)
  have slots: "\<forall>i<2. snd (fst (resolveDeps demo demo_batch empty_state) ! i) =
            (case demo_batch_outcomes ! i of
               Inl e \<Rightarrow> \<lparr>depLoadError = Some (message e), dep_modules = []\<rparr>
             | Inr tree \<Rightarrow> \<lparr>depLoadError = None, dep_modules = tree\<rparr>)"
    using t by (simp add: demo_batch_def)
  have s0: "snd (fst (resolveDeps demo demo_batch empty_state) ! 0) =
     \<lparr>depLoadError = None,
      dep_modules = [(''b'', Item (Loaded demo_typed_meta (demo_typed_files ''b'')))]\<rparr>"
    using slots [rule_format, of 0] by (simp add: demo_batch_outcomes_def)
  have s1: "snd (fst (resolveDeps demo demo_batch empty_state) ! 1) =
     \<lparr>depLoadError =
        Some ''Failed to load https://data.jsdelivr.com/v1/package/npm/zzz@1.0.0/flat'',
      dep_modules = []\<rparr>"
    using slots [rule_format, of 1] by (simp add: demo_batch_outcomes_def)
  from d one keys s0 s1 show ?thesis by simp
qed

text \<open>
  The claim as stated fails on a list that names a reference twice: of the three
  references below exactly one fails, and the mapping has two entries.
\<close>

theorem resolveDeps_duplicate_counterexample:
  "length [(''b'', ''1.0.0''), (''b'', ''1.0.0''), (''zzz'', ''1.0.0'')] = 3 \<and>
   map isl (fst (resolveDep_map demo
      [(''b'', ''1.0.0''), (''b'', ''1.0.0''), (''zzz'', ''1.0.0'')] 0 empty_state)) =
     [False, False, True] \<and>
   map fst (fst (resolveDeps demo
      [(''b'', ''1.0.0''), (''b'', ''1.0.0''), (''zzz'', ''1.0.0'')] empty_state)) =
     [''b@1.0.0'', ''zzz@1.0.0'']"
proof (intro conjI)
  show "length [(''b'', ''1.0.0''), (''b'', ''1.0.0''), (''zzz'', ''1.0.0'')] = 3"
    by simp
  show "map isl (fst (resolveDep_map demo
      [(''b'', ''1.0.0''), (''b'', ''1.0.0''), (''zzz'', ''1.0.0'')] 0 empty_state)) =
     [False, False, True]"
    by (simp add: eval resolveDep.simps Object_assign_array_def)
  show "map fst (fst (resolveDeps demo
      [(''b'', ''1.0.0''), (''b'', ''1.0.0''), (''zzz'', ''1.0.0'')] empty_state)) =
     [''b@1.0.0'', ''zzz@1.0.0'']"
    by (simp add: eval resolveDep.simps Object_assign_array_def)
qed

subsection \<open>Synchronising two reference lists with the same package names\<close>

lemma resolveDeps_Nil: "resolveDeps env [] s = ([], s)"
  by (simp add: resolveDeps_def resolveDep.simps)

lemma foreachDeps_Nil: "foreachDeps [] cb acc = acc"
  by (simp add: foreachDeps_def)

lemma filter_known_Nil:
  "set (map ref_module xs) \<subseteq> set (map ref_module ys) \<Longrightarrow>
   filter (\<lambda>r. \<not> list_ex (\<lambda>r'. ref_module r' = ref_module r) ys) xs = []"
  by (force simp: filter_empty_conv list_ex_iff)

text \<open>
  Claim C9. When the old and the new reference list contain the same package names
  (the versions may differ), \<^verbatim>\<open>resolveModules\<close> returns the Type Host as it was (its
  virtual-file list is unchanged and \<^verbatim>\<open>setExtraLibs\<close> is not called) and the state as it
  was (no request is made), and reports no load error.
\<close>

theorem resolveModules_same_names:
  assumes "set (map ref_module oldRefs) = set (map ref_module newRefs)"
  shows "resolveModules env monaco oldRefs newRefs s = (monaco, s, [])"
proof -
  have a: "filter (\<lambda>r. \<not> list_ex (\<lambda>r'. ref_module r' = ref_module r) oldRefs) newRefs = []"
    using assms by (intro filter_known_Nil) simp
  have d: "filter (\<lambda>r. \<not> list_ex (\<lambda>r'. ref_module r' = ref_module r) newRefs) oldRefs = []"
    using assms by (intro filter_known_Nil) simp
  show ?thesis
    by (simp add: resolveModules_def a d resolveDeps_Nil foreachDeps_Nil depLoadErrors_def)
qed

theorem resolveModules_same_names_witness:
  "set (map ref_module [\<lparr>ref_module = ''b'', ref_version = Some ''1.0.0''\<rparr>]) =
     set (map ref_module [\<lparr>ref_module = ''b'', ref_version = None\<rparr>]) \<and>
   resolveModules demo demo_host [\<lparr>ref_module = ''b'', ref_version = Some ''1.0.0''\<rparr>]
     [\<lparr>ref_module = ''b'', ref_version = None\<rparr>] empty_state = (demo_host, empty_state, [])"
  using resolveModules_same_names [of "[\<lparr>ref_module = ''b'', ref_version = Some ''1.0.0''\<rparr>]"
      "[\<lparr>ref_module = ''b'', ref_version = None\<rparr>]" demo demo_host empty_state]
  by simp

subsection \<open>Removing the files of a dropped reference\<close>

text \<open>
  Claim C2 says that synchronising against an empty new list removes every virtual
  file of the old packages, the files stored at
  \<^verbatim>\<open>file:///node_modules/<package><path>\<close>, and writes back once. The removal at lines
  242 to 247 looks the file up by its path inside the package (\<^verbatim>\<open>filePath\<close>), not by
  the synthesized path under which line 253 stored it, so nothing is found. On the
  small registry, synchronising \<open>[]\<close> to \<open>[b]\<close> stores the two files of \<open>b\<close>; then
  synchronising \<open>[b]\<close> to \<open>[]\<close> calls \<^verbatim>\<open>setExtraLibs\<close> once more, with both files
  still in the list.
\<close>

theorem resolveModules_removal_misses:
  "resolveModules demo empty_host [] [demo_ref_b] empty_state =
     (\<lparr>extraLibs = demo_libs_b, setExtraLibs_calls = [demo_libs_b]\<rparr>, demo_b_state, []) \<and>
   fst (resolveModules demo \<lparr>extraLibs = demo_libs_b, setExtraLibs_calls = [demo_libs_b]\<rparr>
          [demo_ref_b] [] demo_b_state) =
     \<lparr>extraLibs = demo_libs_b, setExtraLibs_calls = [demo_libs_b, demo_libs_b]\<rparr>"
proof
  show "resolveModules demo empty_host [] [demo_ref_b] empty_state =
     (\<lparr>extraLibs = demo_libs_b, setExtraLibs_calls = [demo_libs_b]\<rparr>, demo_b_state, [])"
    by (rule resolveModules_add_b)
  show "fst (resolveModules demo \<lparr>extraLibs = demo_libs_b, setExtraLibs_calls = [demo_libs_b]\<rparr>
          [demo_ref_b] [] demo_b_state) =
     \<lparr>extraLibs = demo_libs_b, setExtraLibs_calls = [demo_libs_b, demo_libs_b]\<rparr>"
    by (simp add: eval demo_values demo_b_state_def demo_ref_b_def demo_libs_b_def
      resolveDep.simps)
qed

end
